theory Spec2Isabelle
  imports Complex_Main
begin

section \<open>Numbers\<close>

text \<open>
  The arguments that a caller passes are finite values of the C++ type \<open>double\<close>. They are
  modelled by \<^typ>\<open>real\<close>: comparisons are exact, and so is the arithmetic on them, as
  rounding is not modelled. Not-a-number and the infinities cannot be written as an
  argument. A real stands for a \<open>double\<close> when it is within the range of \<open>DBL_MAX\<close>, the
  largest finite \<open>double\<close> (header \<open>cfloat\<close>).
\<close>

definition DBL_MAX :: real where
  "DBL_MAX = (2 ^ 53 - 1) * 2 ^ 971"

definition finite_double :: "real \<Rightarrow> bool" where
  "finite_double v = (- DBL_MAX \<le> v \<and> v \<le> DBL_MAX)"

text \<open>
  Where the source computes a value that it returns or hands to the drawing interface,
  and the value can leave the finite range, by an overflow or by a division by zero, the
  result is a value of the type \<open>double\<close> below: a finite number (\<open>Fin 0\<close> is the positive
  zero), the negative zero, an infinity or not-a-number. The operations follow IEEE 754
  but for rounding: a finite result beyond \<open>DBL_MAX\<close> is an infinity. A value that is only
  compared stays a real, and one beyond \<open>DBL_MAX\<close> then stands for an infinity: the sums
  and differences of coordinates in the tests for culling, and the scaled extents of a
  text. The reference point of a text, which lies within the text's extents of the
  centre, is a real as well.
\<close>

datatype double = Fin real | NegZero | PosInf | NegInf | NaN

definition double_of_real :: "real \<Rightarrow> double" where
  "double_of_real v = (if v > DBL_MAX then PosInf else if v < - DBL_MAX then NegInf else Fin v)"

fun signbit :: "double \<Rightarrow> bool" where
  "signbit (Fin v) = (v < 0)"
| "signbit NegZero = True"
| "signbit PosInf = False"
| "signbit NegInf = True"
| "signbit NaN = False"

fun is_zero :: "double \<Rightarrow> bool" where
  "is_zero (Fin v) = (v = 0)"
| "is_zero NegZero = True"
| "is_zero PosInf = False"
| "is_zero NegInf = False"
| "is_zero NaN = False"

fun is_inf :: "double \<Rightarrow> bool" where
  "is_inf (Fin v) = False"
| "is_inf NegZero = False"
| "is_inf PosInf = True"
| "is_inf NegInf = True"
| "is_inf NaN = False"

text \<open>The number that a finite value is.\<close>

fun number :: "double \<Rightarrow> real" where
  "number (Fin v) = v"
| "number NegZero = 0"
| "number PosInf = 0"
| "number NegInf = 0"
| "number NaN = 0"

definition signed_zero :: "bool \<Rightarrow> double" where
  "signed_zero negative = (if negative then NegZero else Fin 0)"

definition signed_inf :: "bool \<Rightarrow> double" where
  "signed_inf negative = (if negative then NegInf else PosInf)"

text \<open>Unary minus.\<close>

fun dneg :: "double \<Rightarrow> double" where
  "dneg (Fin v) = (if v = 0 then NegZero else Fin (- v))"
| "dneg NegZero = Fin 0"
| "dneg PosInf = NegInf"
| "dneg NegInf = PosInf"
| "dneg NaN = NaN"

text \<open>
  Addition: the sum of two opposite infinities is not a number; a sum that is zero is the
  negative zero only when both summands are.
\<close>

definition dadd :: "double \<Rightarrow> double \<Rightarrow> double" where
  "dadd a b =
     (if a = NaN \<or> b = NaN then NaN
      else if is_inf a \<and> is_inf b then (if a = b then a else NaN)
      else if is_inf a then a
      else if is_inf b then b
      else if number a + number b = 0 then signed_zero (a = NegZero \<and> b = NegZero)
      else double_of_real (number a + number b))"

definition dsub :: "double \<Rightarrow> double \<Rightarrow> double" where
  "dsub a b = dadd a (dneg b)"

text \<open>
  Multiplication: zero times an infinity is not a number; otherwise the sign is negative
  exactly when the signs of the factors differ.
\<close>

definition dmul :: "double \<Rightarrow> double \<Rightarrow> double" where
  "dmul a b =
     (if a = NaN \<or> b = NaN then NaN
      else if (is_inf a \<and> is_zero b) \<or> (is_zero a \<and> is_inf b) then NaN
      else if is_inf a \<or> is_inf b then signed_inf (signbit a \<noteq> signbit b)
      else if is_zero a \<or> is_zero b then signed_zero (signbit a \<noteq> signbit b)
      else double_of_real (number a * number b))"

text \<open>
  Division: zero by zero and infinity by infinity are not numbers; a number other than
  zero divided by zero is an infinity.
\<close>

definition ddiv :: "double \<Rightarrow> double \<Rightarrow> double" where
  "ddiv a b =
     (if a = NaN \<or> b = NaN then NaN
      else if (is_zero a \<and> is_zero b) \<or> (is_inf a \<and> is_inf b) then NaN
      else if is_inf a \<or> is_zero b then signed_inf (signbit a \<noteq> signbit b)
      else if is_inf b \<or> is_zero a then signed_zero (signbit a \<noteq> signbit b)
      else double_of_real (number a / number b))"

text \<open>The comparison \<open><=\<close>: false when an operand is not a number; the two zeros are equal.\<close>

definition dle :: "double \<Rightarrow> double \<Rightarrow> bool" where
  "dle a b =
     (if a = NaN \<or> b = NaN then False
      else if a = NegInf \<or> b = PosInf then True
      else if a = PosInf \<or> b = NegInf then False
      else number a \<le> number b)"

text \<open>
  Conversions to integer types drop the fractional part; C++ leaves the result undefined
  (\<open>None\<close>) when the value is not a number, is infinite or does not fit the type. \<open>int\<close> and
  \<open>unsigned int\<close> have 32 bits and \<open>long\<close> has 64 bits, as on Linux for x86-64.
\<close>

definition truncate_real :: "real \<Rightarrow> int" where
  "truncate_real v = (if 0 \<le> v then \<lfloor>v\<rfloor> else \<lceil>v\<rceil>)"

definition int_of_real :: "real \<Rightarrow> int option" where
  "int_of_real v =
     (if - (2 ^ 31) \<le> truncate_real v \<and> truncate_real v < 2 ^ 31 then Some (truncate_real v)
      else None)"

definition unsigned_of_real :: "real \<Rightarrow> int option" where
  "unsigned_of_real v =
     (if 0 \<le> truncate_real v \<and> truncate_real v < 2 ^ 32 then Some (truncate_real v)
      else None)"

fun int_of_double :: "double \<Rightarrow> int option" where
  "int_of_double (Fin v) = int_of_real v"
| "int_of_double NegZero = Some 0"
| "int_of_double PosInf = None"
| "int_of_double NegInf = None"
| "int_of_double NaN = None"

fun unsigned_of_double :: "double \<Rightarrow> int option" where
  "unsigned_of_double (Fin v) = unsigned_of_real v"
| "unsigned_of_double NegZero = Some 0"
| "unsigned_of_double PosInf = None"
| "unsigned_of_double NegInf = None"
| "unsigned_of_double NaN = None"

text \<open>\<open>static_cast<long>\<close> of a \<open>double\<close>.\<close>

definition static_cast_long :: "real \<Rightarrow> int option" where
  "static_cast_long v =
     (if - (2 ^ 63) \<le> truncate_real v \<and> truncate_real v < 2 ^ 63 then Some (truncate_real v)
      else None)"

text \<open>
  The assignment of a \<open>long\<close> to a field of the type \<open>short\<close> (16 bits) keeps the value
  modulo \<open>2 ^ 16\<close>.
\<close>

definition short_of_long :: "int \<Rightarrow> int" where
  "short_of_long n = (n + 2 ^ 15) mod 2 ^ 16 - 2 ^ 15"

section \<open>Points (used by \<open>include/ezgl/rectangle.hpp\<close> and \<open>src/graphics.cpp\<close>)\<close>

text \<open>
  \<open>point2d\<close> has the two coordinates \<open>x\<close> and \<open>y\<close>; the fields are called \<open>px\<close> and \<open>py\<close>
  here, so that \<open>x\<close> and \<open>y\<close> stay free for variables.
\<close>

record point2d =
  px :: real
  py :: real

text \<open>
  Modelled from the spec: \<open>include/ezgl/point.hpp\<close> is not among the sources. The operations
  of \<open>point2d\<close> that the sources call (\<open>offset\<close>, \<open>==\<close>, \<open>+\<close>, \<open>-\<close>, \<open>*\<close>) act on each coordinate.
\<close>

definition point_offset :: "point2d \<Rightarrow> real \<Rightarrow> real \<Rightarrow> point2d" where
  "point_offset p x_offset y_offset = \<lparr>px = px p + x_offset, py = py p + y_offset\<rparr>"

definition point_eq :: "point2d \<Rightarrow> point2d \<Rightarrow> bool" where
  "point_eq lhs rhs = (px lhs = px rhs \<and> py lhs = py rhs)"

definition point_add :: "point2d \<Rightarrow> point2d \<Rightarrow> point2d" where
  "point_add lhs rhs = \<lparr>px = px lhs + px rhs, py = py lhs + py rhs\<rparr>"

definition point_sub :: "point2d \<Rightarrow> point2d \<Rightarrow> point2d" where
  "point_sub lhs rhs = \<lparr>px = px lhs - px rhs, py = py lhs - py rhs\<rparr>"

definition point_mul :: "point2d \<Rightarrow> point2d \<Rightarrow> point2d" where
  "point_mul lhs rhs = \<lparr>px = px lhs * px rhs, py = py lhs * py rhs\<rparr>"

text \<open>A point whose coordinates are finite \<open>double\<close> values.\<close>

definition finite_point :: "point2d \<Rightarrow> bool" where
  "finite_point p = (finite_double (px p) \<and> finite_double (py p))"

section \<open>Rectangles (\<open>include/ezgl/rectangle.hpp\<close>)\<close>

record rectangle =
  m_first :: point2d
  m_second :: point2d

text \<open>The constructor \<open>rectangle(point2d origin, point2d top_right)\<close>.\<close>

definition rectangle_of_points :: "point2d \<Rightarrow> point2d \<Rightarrow> rectangle" where
  "rectangle_of_points origin top_right = \<lparr>m_first = origin, m_second = top_right\<rparr>"

text \<open>The constructor \<open>rectangle(point2d origin, double width, double height)\<close>.\<close>

definition rectangle_of_size :: "point2d \<Rightarrow> real \<Rightarrow> real \<Rightarrow> rectangle" where
  "rectangle_of_size origin w h = \<lparr>m_first = origin, m_second = point_offset origin w h\<rparr>"

definition left :: "rectangle \<Rightarrow> real" where
  "left r = min (px (m_first r)) (px (m_second r))"

definition right :: "rectangle \<Rightarrow> real" where
  "right r = max (px (m_first r)) (px (m_second r))"

definition bottom :: "rectangle \<Rightarrow> real" where
  "bottom r = min (py (m_first r)) (py (m_second r))"

text \<open>\<open>rectangle::top\<close>; the name \<open>top\<close> is taken in HOL.\<close>

definition top_rect :: "rectangle \<Rightarrow> real" where
  "top_rect r = max (py (m_first r)) (py (m_second r))"

text \<open>\<open>rectangle::contains(double x, double y)\<close>.\<close>

definition contains :: "rectangle \<Rightarrow> real \<Rightarrow> real \<Rightarrow> bool" where
  "contains r x y =
     (if x < left r \<or> right r < x \<or> y < bottom r \<or> top_rect r < y then False else True)"

text \<open>\<open>rectangle::contains(point2d point)\<close>.\<close>

definition contains_point :: "rectangle \<Rightarrow> point2d \<Rightarrow> bool" where
  "contains_point r point = contains r (px point) (py point)"

text \<open>\<open>rectangle::offset\<close>.\<close>

definition offset :: "rectangle \<Rightarrow> real \<Rightarrow> real \<Rightarrow> rectangle" where
  "offset r x_offset y_offset =
     \<lparr>m_first = point_offset (m_first r) x_offset y_offset,
      m_second = point_offset (m_second r) x_offset y_offset\<rparr>"

text \<open>\<open>rectangle::operator==\<close> and \<open>rectangle::operator!=\<close>.\<close>

definition rectangle_eq :: "rectangle \<Rightarrow> rectangle \<Rightarrow> bool" where
  "rectangle_eq r rhs = (point_eq (m_first r) (m_first rhs) \<and> point_eq (m_second r) (m_second rhs))"

definition rectangle_neq :: "rectangle \<Rightarrow> rectangle \<Rightarrow> bool" where
  "rectangle_neq r rhs = (\<not> rectangle_eq rhs r)"

text \<open>
  \<open>width\<close>, \<open>height\<close>, \<open>area\<close> and the centre are \<open>double\<close> arithmetic on the edges: a
  difference, a sum or a product beyond \<open>DBL_MAX\<close> is an infinity, and the product of an
  infinity and zero is not a number. An edge beyond \<open>DBL_MAX\<close> stands for the infinity
  that the addition in the constructor \<open>rectangle(origin, width, height)\<close> gives.
\<close>

definition width :: "rectangle \<Rightarrow> double" where
  "width r = dsub (double_of_real (right r)) (double_of_real (left r))"

definition height :: "rectangle \<Rightarrow> double" where
  "height r = dsub (double_of_real (top_rect r)) (double_of_real (bottom r))"

definition area :: "rectangle \<Rightarrow> double" where
  "area r = dmul (width r) (height r)"

definition centre_x :: "rectangle \<Rightarrow> double" where
  "centre_x r = dmul (dadd (double_of_real (right r)) (double_of_real (left r))) (Fin 0.5)"

definition centre_y :: "rectangle \<Rightarrow> double" where
  "centre_y r = dmul (dadd (double_of_real (top_rect r)) (double_of_real (bottom r))) (Fin 0.5)"

text \<open>\<open>centre\<close> returns the point \<open>{centre_x(r), centre_y(r)}\<close>, here the pair of the two.\<close>

definition centre :: "rectangle \<Rightarrow> double \<times> double" where
  "centre r = (centre_x r, centre_y r)"

section \<open>The renderer (\<open>src/graphics.cpp\<close>)\<close>

text \<open>
  Modelled from the spec: \<open>rectangle::bottom_left\<close> and \<open>rectangle::top_right\<close> are called by
  \<open>renderer::get_visible_world\<close> but are missing from the \<open>rectangle.hpp\<close> among the
  sources. They are the corner of the two minimal and of the two maximal coordinates.
\<close>

definition bottom_left :: "rectangle \<Rightarrow> point2d" where
  "bottom_left r = \<lparr>px = left r, py = bottom r\<rparr>"

definition top_right :: "rectangle \<Rightarrow> point2d" where
  "top_right r = \<lparr>px = right r, py = top_rect r\<rparr>"

datatype t_coordinate_system = WORLD | SCREEN

text \<open>
  Modelled from the spec: \<open>include/ezgl/camera.hpp\<close> is not among the sources. A camera is
  what its three getters return: the world rectangle, the screen rectangle and the world
  scale factor.
\<close>

record camera =
  get_world :: rectangle
  get_screen :: rectangle
  get_world_scale_factor :: point2d

subsection \<open>The external drawing interface\<close>

datatype cairo_status_t =
    CAIRO_STATUS_SUCCESS
  | CAIRO_STATUS_NO_MEMORY
  | CAIRO_STATUS_FILE_NOT_FOUND
  | CAIRO_STATUS_READ_ERROR
  | CAIRO_STATUS_PNG_ERROR

text \<open>
  A surface, as far as the renderer looks at it: the answers of \<open>cairo_surface_status\<close>,
  \<open>cairo_image_surface_get_width\<close> and \<open>cairo_image_surface_get_height\<close>.
\<close>

record cairo_surface_t =
  cairo_surface_status :: cairo_status_t
  cairo_image_surface_get_width :: int
  cairo_image_surface_get_height :: int

text \<open>The structs \<open>cairo_text_extents_t\<close> and \<open>cairo_font_extents_t\<close>, fields prefixed.\<close>

record cairo_text_extents_t =
  te_x_bearing :: real
  te_y_bearing :: real
  te_width :: real
  te_height :: real
  te_x_advance :: real
  te_y_advance :: real

record cairo_font_extents_t =
  fe_ascent :: real
  fe_descent :: real
  fe_height :: real
  fe_max_x_advance :: real
  fe_max_y_advance :: real

text \<open>
  The calls that change what is drawn: those on the cairo context \<open>m_cairo\<close> and those on
  the X11 drawable (the display, drawable and context arguments are left out). An argument
  of a cairo call is a \<open>double\<close>. An argument of an Xlib call is the integer to which C++
  converts the \<open>double\<close> written at the call: an \<open>int\<close> for a position or an angle, an
  \<open>unsigned int\<close> for a size, \<open>None\<close> where the conversion is undefined. A vertex of
  \<open>XFillPolygon\<close> is an \<open>XPoint\<close>, a pair of \<open>short\<close>. Queries (\<open>cairo_text_extents\<close>,
  \<open>cairo_font_extents\<close>, \<open>cairo_surface_status\<close>) and the creation and destruction of
  surfaces are not calls of this kind.
\<close>

datatype drawing_call =
    cairo_move_to double double
  | cairo_line_to double double
  | cairo_close_path
  | cairo_new_path
  | cairo_stroke
  | cairo_fill
  | cairo_save
  | cairo_restore
  | cairo_scale double double
  | cairo_rotate double
  | cairo_show_text string
  | cairo_arc double double double double double
  | cairo_arc_negative double double double double double
  | cairo_set_source_surface cairo_surface_t double double
  | cairo_paint
  | XDrawLine "int option" "int option" "int option" "int option"
  | XFillPolygon "(int option \<times> int option) list" nat
  | XFillRectangle "int option" "int option" "int option" "int option"
  | XDrawRectangle "int option" "int option" "int option" "int option"
  | XFillArc "int option" "int option" "int option" "int option" "int option" "int option"
  | XDrawArc "int option" "int option" "int option" "int option" "int option" "int option"

subsection \<open>The state of a renderer\<close>

text \<open>
  \<open>m_cairo\<close> is the list of drawing calls issued so far, the oldest first: the colour, the
  line style and the font of the cairo context are set by such calls and by nothing else.
  \<open>m_transform\<close>, \<open>m_camera\<close>, \<open>rotation_angle\<close>, \<open>current_coordinate_system\<close> and
  \<open>transparency_flag\<close> are the members of the class. The remaining fields are the
  surroundings of the class, carried along so that every method keeps its signature:
  \<open>EZGL_USE_X11\<close> says whether the macro of that name is defined, \<open>cairo_text_extents\<close> and
  \<open>cairo_font_extents\<close> are the answers of the library for a context with the given
  history, and \<open>cairo_image_surface_create_from_png\<close> is the surface the library makes
  of a file path.
\<close>

record renderer =
  m_cairo :: "drawing_call list"
  m_transform :: "point2d \<Rightarrow> point2d"
  m_camera :: camera
  rotation_angle :: real
  current_coordinate_system :: t_coordinate_system
  transparency_flag :: bool
  EZGL_USE_X11 :: bool
  cairo_text_extents :: "drawing_call list \<Rightarrow> string \<Rightarrow> cairo_text_extents_t"
  cairo_font_extents :: "drawing_call list \<Rightarrow> cairo_font_extents_t"
  cairo_image_surface_create_from_png :: "string \<Rightarrow> cairo_surface_t"

text \<open>Issuing calls on the context.\<close>

definition issue :: "renderer \<Rightarrow> drawing_call list \<Rightarrow> renderer" where
  "issue r calls = r\<lparr>m_cairo := m_cairo r @ calls\<rparr>"


definition set_coordinate_system :: "renderer \<Rightarrow> t_coordinate_system \<Rightarrow> renderer" where
  "set_coordinate_system r new_coordinate_system =
     r\<lparr>current_coordinate_system := new_coordinate_system\<rparr>"

definition get_visible_world :: "renderer \<Rightarrow> rectangle" where
  "get_visible_world r =
     (let world = get_world (m_camera r);
          screen = get_screen (m_camera r);
          margin = point_mul (bottom_left screen) (get_world_scale_factor (m_camera r))
      in rectangle_of_points (point_sub (bottom_left world) margin)
           (point_add (top_right world) margin))"

definition rectangle_off_screen :: "renderer \<Rightarrow> rectangle \<Rightarrow> bool" where
  "rectangle_off_screen r rect =
     (if current_coordinate_system r = SCREEN then False
      else let visible = get_visible_world r
       in if right rect < left visible then True
          else if left rect > right visible then True
          else if top_rect rect < bottom visible then True
          else if bottom rect > top_rect visible then True
          else False)"


subsection \<open>Lines and rectangles\<close>

definition draw_line :: "renderer \<Rightarrow> point2d \<Rightarrow> point2d \<Rightarrow> renderer" where
  "draw_line r start end_pt =
     (if rectangle_off_screen r (rectangle_of_points start end_pt) then r
      else
        let start1 = (if current_coordinate_system r = WORLD then m_transform r start else start);
            end1 = (if current_coordinate_system r = WORLD then m_transform r end_pt else end_pt)
        in if EZGL_USE_X11 r \<and> \<not> transparency_flag r
           then issue r [XDrawLine (int_of_real (px start1)) (int_of_real (py start1))
                           (int_of_real (px end1)) (int_of_real (py end1))]
           else issue r [cairo_move_to (Fin (px start1)) (Fin (py start1)),
                         cairo_line_to (Fin (px end1)) (Fin (py end1)),
                         cairo_stroke])"

text \<open>
  \<open>renderer::draw_rectangle_path\<close>. Its corners can be the sum of a point and a size, which
  the overloads below form and which can overflow: \<open>double_of_real\<close> gives the \<open>double\<close>
  that a coordinate is.
\<close>

definition draw_rectangle_path :: "renderer \<Rightarrow> point2d \<Rightarrow> point2d \<Rightarrow> bool \<Rightarrow> renderer" where
  "draw_rectangle_path r start end_pt fill_flag =
     (let start1 = (if current_coordinate_system r = WORLD then m_transform r start else start);
          end1 = (if current_coordinate_system r = WORLD then m_transform r end_pt else end_pt)
      in if EZGL_USE_X11 r \<and> \<not> transparency_flag r
         then (if fill_flag
               then issue r [XFillRectangle
                               (int_of_real (min (px start1) (px end1)))
                               (int_of_real (min (py start1) (py end1)))
                               (unsigned_of_real \<bar>px end1 - px start1\<bar>)
                               (unsigned_of_real \<bar>py end1 - py start1\<bar>)]
               else issue r [XDrawRectangle
                               (int_of_real (min (px start1) (px end1)))
                               (int_of_real (min (py start1) (py end1)))
                               (unsigned_of_real \<bar>px end1 - px start1\<bar>)
                               (unsigned_of_real \<bar>py end1 - py start1\<bar>)])
         else issue r [cairo_move_to (double_of_real (px start1)) (double_of_real (py start1)),
                       cairo_line_to (double_of_real (px start1)) (double_of_real (py end1)),
                       cairo_line_to (double_of_real (px end1)) (double_of_real (py end1)),
                       cairo_line_to (double_of_real (px end1)) (double_of_real (py start1)),
                       cairo_close_path,
                       (if fill_flag then cairo_fill else cairo_stroke)])"

text \<open>The three overloads of \<open>renderer::draw_rectangle\<close>.\<close>

definition draw_rectangle :: "renderer \<Rightarrow> point2d \<Rightarrow> point2d \<Rightarrow> renderer" where
  "draw_rectangle r start end_pt =
     (if rectangle_off_screen r (rectangle_of_points start end_pt) then r
      else draw_rectangle_path r start end_pt False)"

definition draw_rectangle_size :: "renderer \<Rightarrow> point2d \<Rightarrow> real \<Rightarrow> real \<Rightarrow> renderer" where
  "draw_rectangle_size r start w h =
     (if rectangle_off_screen r
           (rectangle_of_points start \<lparr>px = px start + w, py = py start + h\<rparr>) then r
      else draw_rectangle_path r start \<lparr>px = px start + w, py = py start + h\<rparr> False)"

definition draw_rectangle_rect :: "renderer \<Rightarrow> rectangle \<Rightarrow> renderer" where
  "draw_rectangle_rect r rc =
     (if rectangle_off_screen r
           (rectangle_of_points \<lparr>px = left rc, py = bottom rc\<rparr> \<lparr>px = right rc, py = top_rect rc\<rparr>)
      then r
      else draw_rectangle_path r \<lparr>px = left rc, py = bottom rc\<rparr>
             \<lparr>px = right rc, py = top_rect rc\<rparr> False)"

text \<open>The three overloads of \<open>renderer::fill_rectangle\<close>.\<close>

definition fill_rectangle :: "renderer \<Rightarrow> point2d \<Rightarrow> point2d \<Rightarrow> renderer" where
  "fill_rectangle r start end_pt =
     (if rectangle_off_screen r (rectangle_of_points start end_pt) then r
      else draw_rectangle_path r start end_pt True)"

definition fill_rectangle_size :: "renderer \<Rightarrow> point2d \<Rightarrow> real \<Rightarrow> real \<Rightarrow> renderer" where
  "fill_rectangle_size r start w h =
     (if rectangle_off_screen r
           (rectangle_of_points start \<lparr>px = px start + w, py = py start + h\<rparr>) then r
      else draw_rectangle_path r start \<lparr>px = px start + w, py = py start + h\<rparr> True)"

definition fill_rectangle_rect :: "renderer \<Rightarrow> rectangle \<Rightarrow> renderer" where
  "fill_rectangle_rect r rc =
     (if rectangle_off_screen r
           (rectangle_of_points \<lparr>px = left rc, py = bottom rc\<rparr> \<lparr>px = right rc, py = top_rect rc\<rparr>)
      then r
      else draw_rectangle_path r \<lparr>px = left rc, py = bottom rc\<rparr>
             \<lparr>px = right rc, py = top_rect rc\<rparr> True)"

subsection \<open>Polygons\<close>

text \<open>
  \<open>assert(points.size() > 1)\<close> stops the program when it fails: \<open>fill_poly\<close> returns an error
  then, and the renderer otherwise.
\<close>

datatype error = Assertion_failed

text \<open>
  A coordinate of a vertex on the X11 path: \<open>static_cast<long>\<close>, then the assignment to a
  field of an \<open>XPoint\<close>.
\<close>

definition xpoint_coordinate :: "real \<Rightarrow> int option" where
  "xpoint_coordinate v = map_option short_of_long (static_cast_long v)"

definition fill_poly :: "renderer \<Rightarrow> point2d list \<Rightarrow> error + renderer" where
  "fill_poly r points =
     (if \<not> length points > 1 then Inl Assertion_failed
      else
        let x_min = fold (\<lambda>p m. min m (px p)) (tl points) (px (hd points));
            x_max = fold (\<lambda>p m. max m (px p)) (tl points) (px (hd points));
            y_min = fold (\<lambda>p m. min m (py p)) (tl points) (py (hd points));
            y_max = fold (\<lambda>p m. max m (py p)) (tl points) (py (hd points))
        in if rectangle_off_screen r
                (rectangle_of_points \<lparr>px = x_min, py = y_min\<rparr> \<lparr>px = x_max, py = y_max\<rparr>)
           then Inr r
           else if EZGL_USE_X11 r \<and> \<not> transparency_flag r
           then Inr (issue r
                  [XFillPolygon
                     (map (\<lambda>p. let next_point =
                                      (if current_coordinate_system r = WORLD then m_transform r p
                                       else p)
                                in (xpoint_coordinate (px next_point),
                                    xpoint_coordinate (py next_point)))
                        points)
                     (length points)])
           else
             let first_point =
                   (if current_coordinate_system r = WORLD then m_transform r (hd points)
                    else hd points)
             in Inr (issue r
                  ([cairo_move_to (Fin (px first_point)) (Fin (py first_point))]
                   @ map (\<lambda>p. let next_point =
                                      (if current_coordinate_system r = WORLD then m_transform r p
                                       else p)
                                in cairo_line_to (Fin (px next_point)) (Fin (py next_point)))
                       (tl points)
                   @ [cairo_close_path, cairo_fill])))"

subsection \<open>Arcs\<close>

text \<open>
  \<open>renderer::draw_arc_path\<close>. The stretch factor is the quotient \<open>radius_y / radius_x\<close> of
  an elliptic arc, which is an infinity, a zero of either sign or not a number when a
  radius is zero. The radius is computed anew, as the distance from the centre to the
  point of the outline to its right, whose coordinate \<open>center.x + radius\<close> can overflow.
  So the radius, the products and the quotient that the function forms with the radius
  and the stretch factor, and the angles in radians (\<open>M_PI\<close> is \<open>pi\<close>) are \<open>double\<close>
  arithmetic.
\<close>

definition draw_arc_path ::
  "renderer \<Rightarrow> point2d \<Rightarrow> real \<Rightarrow> real \<Rightarrow> real \<Rightarrow> double \<Rightarrow> bool \<Rightarrow> renderer" where
  "draw_arc_path r center radius start_angle extent_angle stretch_factor fill_flag =
     (let point_x = \<lparr>px = px center + radius, py = py center\<rparr>;
          center1 = (if current_coordinate_system r = WORLD then m_transform r center else center);
          point_x1 = (if current_coordinate_system r = WORLD then m_transform r point_x
                      else point_x);
          radius1 = dsub (double_of_real (px point_x1)) (Fin (px center1))
      in if EZGL_USE_X11 r \<and> \<not> transparency_flag r
         then (if fill_flag
               then issue r [XFillArc
                               (int_of_double (dsub (Fin (px center1)) radius1))
                               (int_of_double
                                  (dsub (Fin (py center1)) (dmul radius1 stretch_factor)))
                               (unsigned_of_double (dmul (Fin 2) radius1))
                               (unsigned_of_double (dmul (dmul (Fin 2) radius1) stretch_factor))
                               (int_of_real (start_angle * 64))
                               (int_of_real (extent_angle * 64))]
               else issue r [XDrawArc
                               (int_of_double (dsub (Fin (px center1)) radius1))
                               (int_of_double
                                  (dsub (Fin (py center1)) (dmul radius1 stretch_factor)))
                               (unsigned_of_double (dmul (Fin 2) radius1))
                               (unsigned_of_double (dmul (dmul (Fin 2) radius1) stretch_factor))
                               (int_of_real (start_angle * 64))
                               (int_of_real (extent_angle * 64))])
         else
           let center_x2 = dmul (Fin (px center1)) stretch_factor;
               radius2 = dmul radius1 stretch_factor;
               end_angle = dadd (Fin start_angle) (Fin extent_angle)
           in issue r
                ([cairo_save, cairo_scale (ddiv (Fin 1) stretch_factor) (Fin 1), cairo_new_path]
                 @ (if fill_flag then [cairo_move_to center_x2 (Fin (py center1))] else [])
                 @ [if extent_angle \<ge> 0
                    then cairo_arc_negative center_x2 (Fin (py center1)) radius2
                           (ddiv (dmul (dneg (Fin start_angle)) (Fin pi)) (Fin 180))
                           (ddiv (dmul (dneg end_angle) (Fin pi)) (Fin 180))
                    else cairo_arc center_x2 (Fin (py center1)) radius2
                           (ddiv (dmul (dneg (Fin start_angle)) (Fin pi)) (Fin 180))
                           (ddiv (dmul (dneg end_angle) (Fin pi)) (Fin 180))]
                 @ (if fill_flag then [cairo_close_path] else [])
                 @ [cairo_restore]
                 @ [if fill_flag then cairo_fill else cairo_stroke]))"

definition draw_elliptic_arc ::
  "renderer \<Rightarrow> point2d \<Rightarrow> real \<Rightarrow> real \<Rightarrow> real \<Rightarrow> real \<Rightarrow> renderer" where
  "draw_elliptic_arc r center radius_x radius_y start_angle extent_angle =
     (if rectangle_off_screen r
           (rectangle_of_points \<lparr>px = px center - radius_x, py = py center - radius_y\<rparr>
              \<lparr>px = px center + radius_x, py = py center + radius_y\<rparr>)
      then r
      else let stretch_factor = ddiv (Fin radius_y) (Fin radius_x)
           in draw_arc_path r center radius_x start_angle extent_angle stretch_factor False)"

definition draw_arc :: "renderer \<Rightarrow> point2d \<Rightarrow> real \<Rightarrow> real \<Rightarrow> real \<Rightarrow> renderer" where
  "draw_arc r center radius start_angle extent_angle =
     (if rectangle_off_screen r
           (rectangle_of_points \<lparr>px = px center - radius, py = py center - radius\<rparr>
              \<lparr>px = px center + radius, py = py center + radius\<rparr>)
      then r
      else draw_arc_path r center radius start_angle extent_angle (Fin 1) False)"

definition fill_elliptic_arc ::
  "renderer \<Rightarrow> point2d \<Rightarrow> real \<Rightarrow> real \<Rightarrow> real \<Rightarrow> real \<Rightarrow> renderer" where
  "fill_elliptic_arc r center radius_x radius_y start_angle extent_angle =
     (if rectangle_off_screen r
           (rectangle_of_points \<lparr>px = px center - radius_x, py = py center - radius_y\<rparr>
              \<lparr>px = px center + radius_x, py = py center + radius_y\<rparr>)
      then r
      else let stretch_factor = ddiv (Fin radius_y) (Fin radius_x)
           in draw_arc_path r center radius_x start_angle extent_angle stretch_factor True)"

definition fill_arc :: "renderer \<Rightarrow> point2d \<Rightarrow> real \<Rightarrow> real \<Rightarrow> real \<Rightarrow> renderer" where
  "fill_arc r center radius start_angle extent_angle =
     (if rectangle_off_screen r
           (rectangle_of_points \<lparr>px = px center - radius, py = py center - radius\<rparr>
              \<lparr>px = px center + radius, py = py center + radius\<rparr>)
      then r
      else draw_arc_path r center radius start_angle extent_angle (Fin 1) True)"

subsection \<open>Text\<close>




subsection \<open>Images\<close>

definition draw_surface :: "renderer \<Rightarrow> cairo_surface_t \<Rightarrow> point2d \<Rightarrow> renderer" where
  "draw_surface r surface top_left =
     (if cairo_surface_status surface \<noteq> CAIRO_STATUS_SUCCESS then r
      else
        let s_width = real_of_int (cairo_image_surface_get_width surface);
            s_height = real_of_int (cairo_image_surface_get_height surface)
        in if rectangle_off_screen r
                (rectangle_of_size \<lparr>px = px top_left, py = py top_left - s_height\<rparr>
                   s_width s_height)
           then r
           else
             let top_left1 = (if current_coordinate_system r = WORLD then m_transform r top_left
                              else top_left)
             in issue r [cairo_set_source_surface surface (Fin (px top_left1))
                           (Fin (py top_left1)),
                         cairo_paint])"

text \<open>
  \<open>renderer::draw_png\<close>. The function returns \<open>void\<close>: all the caller has afterwards is the
  renderer. (The final \<open>cairo_surface_destroy\<close> releases the surface and issues no drawing
  call.)
\<close>

definition draw_png :: "renderer \<Rightarrow> string \<Rightarrow> point2d \<Rightarrow> renderer" where
  "draw_png r file_path top_left =
     (let png_surface = cairo_image_surface_create_from_png r file_path
      in if cairo_surface_status png_surface \<noteq> CAIRO_STATUS_SUCCESS then r
         else draw_surface r png_surface top_left)"

section \<open>A concrete renderer\<close>

text \<open>
  Values on which the theorems below are instantiated. The world is the square from
  \<open>(0, 0)\<close> to \<open>(100, 100)\<close>, shown at two pixels per unit on a screen rectangle whose
  bottom-left corner is \<open>(10, 10)\<close>; the visible world is then the square from \<open>(-5, -5)\<close>
  to \<open>(105, 105)\<close>. The file \<open>icon.png\<close> is a 16 by 16 image, no other file exists.
\<close>

definition example_camera :: camera where
  "example_camera =
     \<lparr>get_world = rectangle_of_points \<lparr>px = 0, py = 0\<rparr> \<lparr>px = 100, py = 100\<rparr>,
      get_screen = rectangle_of_points \<lparr>px = 10, py = 10\<rparr> \<lparr>px = 210, py = 210\<rparr>,
      get_world_scale_factor = \<lparr>px = 1 / 2, py = 1 / 2\<rparr>\<rparr>"

definition example_transform :: "point2d \<Rightarrow> point2d" where
  "example_transform p = \<lparr>px = 2 * px p + 10, py = 210 - 2 * py p\<rparr>"

definition example_png :: "string \<Rightarrow> cairo_surface_t" where
  "example_png file_path =
     (if file_path = ''icon.png''
      then \<lparr>cairo_surface_status = CAIRO_STATUS_SUCCESS,
            cairo_image_surface_get_width = 16, cairo_image_surface_get_height = 16\<rparr>
      else \<lparr>cairo_surface_status = CAIRO_STATUS_FILE_NOT_FOUND,
            cairo_image_surface_get_width = 0, cairo_image_surface_get_height = 0\<rparr>)"

definition example_renderer :: renderer where
  "example_renderer =
     \<lparr>m_cairo = [],
      m_transform = example_transform,
      m_camera = example_camera,
      rotation_angle = 0,
      current_coordinate_system = WORLD,
      transparency_flag = False,
      EZGL_USE_X11 = False,
      cairo_text_extents = (\<lambda>calls text.
         \<lparr>te_x_bearing = 1, te_y_bearing = - 8, te_width = 20, te_height = 8,
          te_x_advance = 22, te_y_advance = 0\<rparr>),
      cairo_font_extents = (\<lambda>calls.
         \<lparr>fe_ascent = 9, fe_descent = 2, fe_height = 12,
          fe_max_x_advance = 25, fe_max_y_advance = 0\<rparr>),
      cairo_image_surface_create_from_png = example_png\<rparr>"




section \<open>Properties of rectangles\<close>

lemmas edge_defs = left_def right_def bottom_def top_rect_def

lemma left_le_right: "left r \<le> right r"
  by (simp add: left_def right_def min_le_iff_disj)

lemma bottom_le_top: "bottom r \<le> top_rect r"
  by (simp add: bottom_def top_rect_def min_le_iff_disj)

lemma swap_edges:
  "left (rectangle_of_points b a) = left (rectangle_of_points a b)"
  "right (rectangle_of_points b a) = right (rectangle_of_points a b)"
  "bottom (rectangle_of_points b a) = bottom (rectangle_of_points a b)"
  "top_rect (rectangle_of_points b a) = top_rect (rectangle_of_points a b)"
  by (simp_all add: rectangle_of_points_def edge_defs min.commute max.commute)

lemma contains_iff:
  "contains r x y \<longleftrightarrow> left r \<le> x \<and> x \<le> right r \<and> bottom r \<le> y \<and> y \<le> top_rect r"
  by (auto simp: contains_def)

text \<open>
  Two rectangles have no point in common exactly when one lies wholly to one side of the
  other. When they overlap, the corner of the two larger minimal coordinates is in both.
\<close>

lemma rectangles_disjoint_iff:
  "(\<nexists>x y. contains a x y \<and> contains b x y) \<longleftrightarrow>
     right a < left b \<or> left a > right b \<or> top_rect a < bottom b \<or> bottom a > top_rect b"
proof
  assume none: "\<nexists>x y. contains a x y \<and> contains b x y"
  show "right a < left b \<or> left a > right b \<or> top_rect a < bottom b \<or> bottom a > top_rect b"
  proof (rule ccontr)
    assume "\<not> ?thesis"
    then have "contains a (max (left a) (left b)) (max (bottom a) (bottom b))
             \<and> contains b (max (left a) (left b)) (max (bottom a) (bottom b))"
      using left_le_right [of a] left_le_right [of b] bottom_le_top [of a] bottom_le_top [of b]
      by (simp add: contains_iff)
    with none show False by blast
  qed
next
  assume "right a < left b \<or> left a > right b \<or> top_rect a < bottom b \<or> bottom a > top_rect b"
  then show "\<nexists>x y. contains a x y \<and> contains b x y"
    by (auto simp: contains_iff)
qed

text \<open>
  Claim C10. \<open>contains(x, y)\<close> is true exactly when \<open>left() <= x <= right()\<close> and
  \<open>bottom() <= y <= top()\<close>. The four corners are contained, and so is every point of the
  four edges. \<open>contains(point2d p)\<close> is \<open>contains(p.x, p.y)\<close>.
\<close>

theorem rectangle_contains_iff:
  "(contains r x y \<longleftrightarrow> left r \<le> x \<and> x \<le> right r \<and> bottom r \<le> y \<and> y \<le> top_rect r)
   \<and> contains r (left r) (bottom r) \<and> contains r (left r) (top_rect r)
   \<and> contains r (right r) (bottom r) \<and> contains r (right r) (top_rect r)
   \<and> (left r \<le> x \<and> x \<le> right r \<longrightarrow> contains r x (bottom r) \<and> contains r x (top_rect r))
   \<and> (bottom r \<le> y \<and> y \<le> top_rect r \<longrightarrow> contains r (left r) y \<and> contains r (right r) y)
   \<and> contains_point r p = contains r (px p) (py p)"
  using left_le_right [of r] bottom_le_top [of r]
  by (simp add: contains_iff contains_point_def)

theorem rectangle_contains_iff_witness:
  "contains (rectangle_of_points \<lparr>px = 4, py = 3\<rparr> \<lparr>px = 0, py = 1\<rparr>) 2 1
   \<and> contains (rectangle_of_points \<lparr>px = 4, py = 3\<rparr> \<lparr>px = 0, py = 1\<rparr>) 2 3
   \<and> contains (rectangle_of_points \<lparr>px = 4, py = 3\<rparr> \<lparr>px = 0, py = 1\<rparr>) 0 2
   \<and> contains (rectangle_of_points \<lparr>px = 4, py = 3\<rparr> \<lparr>px = 0, py = 1\<rparr>) 4 2
   \<and> \<not> contains (rectangle_of_points \<lparr>px = 4, py = 3\<rparr> \<lparr>px = 0, py = 1\<rparr>) 5 2
   \<and> contains_point (rectangle_of_points \<lparr>px = 4, py = 3\<rparr> \<lparr>px = 0, py = 1\<rparr>) \<lparr>px = 4, py = 3\<rparr>"
  using rectangle_contains_iff
      [where r = "rectangle_of_points \<lparr>px = 4, py = 3\<rparr> \<lparr>px = 0, py = 1\<rparr>"
        and x = 2 and y = 2 and p = "\<lparr>px = 4, py = 3\<rparr>"]
    rectangle_contains_iff
      [where r = "rectangle_of_points \<lparr>px = 4, py = 3\<rparr> \<lparr>px = 0, py = 1\<rparr>"
        and x = 5 and y = 2 and p = "\<lparr>px = 4, py = 3\<rparr>"]
  by (simp add: rectangle_of_points_def edge_defs)

subsection \<open>Width, height and area\<close>

lemma DBL_MAX_ge: "1000 \<le> DBL_MAX"
proof -
  have "(1000::real) \<le> 2 ^ 10" by simp
  also have "\<dots> \<le> 2 ^ 971" by (rule power_increasing) simp_all
  also have "\<dots> \<le> DBL_MAX" by (simp add: DBL_MAX_def)
  finally show ?thesis .
qed

lemma finite_double_small: "\<bar>v\<bar> \<le> 1000 \<Longrightarrow> finite_double v"
  using DBL_MAX_ge by (simp add: finite_double_def abs_le_iff)

lemma double_of_real_small: "\<bar>v\<bar> \<le> 1000 \<Longrightarrow> double_of_real v = Fin v"
  using DBL_MAX_ge by (simp add: double_of_real_def abs_le_iff)

lemma finite_double_DBL_MAX: "finite_double DBL_MAX" "finite_double (- DBL_MAX)" "finite_double 0"
  using DBL_MAX_ge by (simp_all add: finite_double_def)

text \<open>
  The difference of two edges of which at least one is finite: an infinity when it
  overflows, and never negative.
\<close>

lemma edge_difference:
  assumes "lo \<le> hi" and "finite_double lo \<or> finite_double hi"
  shows "dsub (double_of_real hi) (double_of_real lo) =
           (if hi > DBL_MAX \<or> lo < - DBL_MAX \<or> hi - lo > DBL_MAX then PosInf else Fin (hi - lo))"
  using assms DBL_MAX_ge
  by (auto simp: dsub_def dadd_def double_of_real_def finite_double_def signed_zero_def)

text \<open>The product of two values that are an infinity or a number that is not negative.\<close>

lemma dmul_fin_nonneg:
  assumes "0 \<le> v" and "0 \<le> w"
  shows "dmul (Fin v) (Fin w) = (if v * w > DBL_MAX then PosInf else Fin (v * w))"
proof -
  have "0 \<le> v * w" using assms by simp
  then have "\<not> v * w < - DBL_MAX" using DBL_MAX_ge by simp
  then show ?thesis
    using assms by (auto simp: dmul_def double_of_real_def signed_zero_def)
qed

lemma dmul_nonneg:
  assumes "a = PosInf \<or> (\<exists>v. 0 \<le> v \<and> a = Fin v)" and "b = PosInf \<or> (\<exists>v. 0 \<le> v \<and> b = Fin v)"
  shows "(dmul a b = NaN) = (a = PosInf \<and> b = Fin 0 \<or> a = Fin 0 \<and> b = PosInf)"
    and "dmul a b = NaN \<or> dle (Fin 0) (dmul a b)"
proof -
  consider (ii) "a = PosInf" "b = PosInf"
    | (inf_fin) v where "a = PosInf" "b = Fin v" "0 \<le> v"
    | (fin_inf) v where "a = Fin v" "0 \<le> v" "b = PosInf"
    | (ff) v w where "a = Fin v" "0 \<le> v" "b = Fin w" "0 \<le> w"
    using assms by blast
  then have "(dmul a b = NaN) = (a = PosInf \<and> b = Fin 0 \<or> a = Fin 0 \<and> b = PosInf)
      \<and> (dmul a b = NaN \<or> dle (Fin 0) (dmul a b))"
  proof cases
    case ii
    then show ?thesis by (simp add: dmul_def signed_inf_def dle_def)
  next
    case inf_fin
    then show ?thesis by (simp add: dmul_def signed_inf_def dle_def)
  next
    case fin_inf
    then show ?thesis by (simp add: dmul_def signed_inf_def dle_def)
  next
    case ff
    then show ?thesis by (simp add: dmul_fin_nonneg dle_def)
  qed
  then show "(dmul a b = NaN) = (a = PosInf \<and> b = Fin 0 \<or> a = Fin 0 \<and> b = PosInf)"
    and "dmul a b = NaN \<or> dle (Fin 0) (dmul a b)"
    by blast+
qed

lemma width_height_values:
  assumes "finite_point (m_first r)"
  shows "width r = PosInf \<or> (\<exists>v. 0 \<le> v \<and> width r = Fin v)"
    and "height r = PosInf \<or> (\<exists>v. 0 \<le> v \<and> height r = Fin v)"
proof -
  have x: "finite_double (left r) \<or> finite_double (right r)"
    using assms by (auto simp: finite_point_def edge_defs min_def max_def)
  have y: "finite_double (bottom r) \<or> finite_double (top_rect r)"
    using assms by (auto simp: finite_point_def edge_defs min_def max_def)
  show "width r = PosInf \<or> (\<exists>v. 0 \<le> v \<and> width r = Fin v)"
    using left_le_right [of r] by (simp add: width_def edge_difference [OF left_le_right x])
  show "height r = PosInf \<or> (\<exists>v. 0 \<le> v \<and> height r = Fin v)"
    using bottom_le_top [of r] by (simp add: height_def edge_difference [OF bottom_le_top y])
qed

lemma rectangle_sizes:
  assumes "finite_point (m_first r)"
  shows "dle (Fin 0) (width r) \<and> dle (Fin 0) (height r)
     \<and> (area r = NaN \<or> dle (Fin 0) (area r))
     \<and> (area r = NaN) = (width r = PosInf \<and> height r = Fin 0 \<or> width r = Fin 0 \<and> height r = PosInf)"
proof -
  note wh = width_height_values [OF assms]
  have "dle (Fin 0) (width r)" "dle (Fin 0) (height r)"
    using wh by (auto simp: dle_def)
  moreover have "area r = NaN \<or> dle (Fin 0) (area r)"
    unfolding area_def by (rule dmul_nonneg(2) [OF wh])
  moreover have "(area r = NaN) =
      (width r = PosInf \<and> height r = Fin 0 \<or> width r = Fin 0 \<and> height r = PosInf)"
    unfolding area_def by (rule dmul_nonneg(1) [OF wh])
  ultimately show ?thesis by simp
qed


text \<open>
  Claim C9, as the specification states it, fails in two places. It has \<open>rectangle(a, b)\<close>
  and \<open>rectangle(b, a)\<close> compare unequal under \<open>operator==\<close> for every pair of points: with
  \<open>a = b = (1, 2)\<close> both rectangles store \<open>(1, 2)\<close> twice and compare equal. And it has the
  area never negative: for the finite points \<open>a = (-DBL_MAX, 0)\<close> and \<open>b = (DBL_MAX, 0)\<close>
  the width overflows to infinity, the height is zero, and the area, their product, is
  not a number, for which \<open>0 <= area\<close> is false.
\<close>

theorem rectangle_swap_compares_equal:
  "rectangle_eq (rectangle_of_points \<lparr>px = 1, py = 2\<rparr> \<lparr>px = 1, py = 2\<rparr>)
     (rectangle_of_points \<lparr>px = 1, py = 2\<rparr> \<lparr>px = 1, py = 2\<rparr>)
   \<and> finite_point \<lparr>px = - DBL_MAX, py = 0\<rparr> \<and> finite_point \<lparr>px = DBL_MAX, py = 0\<rparr>
   \<and> width (rectangle_of_points \<lparr>px = - DBL_MAX, py = 0\<rparr> \<lparr>px = DBL_MAX, py = 0\<rparr>) = PosInf
   \<and> height (rectangle_of_points \<lparr>px = - DBL_MAX, py = 0\<rparr> \<lparr>px = DBL_MAX, py = 0\<rparr>) = Fin 0
   \<and> area (rectangle_of_points \<lparr>px = - DBL_MAX, py = 0\<rparr> \<lparr>px = DBL_MAX, py = 0\<rparr>) = NaN
   \<and> \<not> dle (Fin 0) (area (rectangle_of_points \<lparr>px = - DBL_MAX, py = 0\<rparr> \<lparr>px = DBL_MAX, py = 0\<rparr>))"
proof -
  have w: "width (rectangle_of_points \<lparr>px = - DBL_MAX, py = 0\<rparr> \<lparr>px = DBL_MAX, py = 0\<rparr>) = PosInf"
    using DBL_MAX_ge
    by (simp add: width_def rectangle_of_points_def edge_defs dsub_def dadd_def
        double_of_real_def)
  have h: "height (rectangle_of_points \<lparr>px = - DBL_MAX, py = 0\<rparr> \<lparr>px = DBL_MAX, py = 0\<rparr>) = Fin 0"
    using DBL_MAX_ge
    by (simp add: height_def rectangle_of_points_def edge_defs dsub_def dadd_def
        double_of_real_def signed_zero_def)
  show ?thesis
    by (simp add: w h area_def dmul_def dle_def finite_point_def finite_double_DBL_MAX)
       (simp add: rectangle_eq_def rectangle_of_points_def point_eq_def)
qed

text \<open>
  Claim C9, amended. For construction points \<open>a\<close> and \<open>b\<close>, \<open>left() <= right()\<close> and
  \<open>bottom() <= top()\<close>; for finite points, width and height are not negative (they are
  infinite when the difference overflows), and the area is not negative unless it is not
  a number, which it is exactly when one of width and height is infinite and the other is
  zero. \<open>rectangle(a, b)\<close> and \<open>rectangle(b, a)\<close> have the same edges, width, height, area
  and centre and contain the same points; under \<open>operator==\<close> they compare unequal
  exactly when \<open>a\<close> and \<open>b\<close> differ. The same bounds hold for
  \<open>rectangle(origin, width, height)\<close> with a finite origin, width and height of any sign.
\<close>

theorem rectangle_normalised:
  "left (rectangle_of_points a b) \<le> right (rectangle_of_points a b)
   \<and> bottom (rectangle_of_points a b) \<le> top_rect (rectangle_of_points a b)
   \<and> (finite_point a \<and> finite_point b \<longrightarrow>
        dle (Fin 0) (width (rectangle_of_points a b))
        \<and> dle (Fin 0) (height (rectangle_of_points a b))
        \<and> (area (rectangle_of_points a b) = NaN \<or> dle (Fin 0) (area (rectangle_of_points a b)))
        \<and> (area (rectangle_of_points a b) = NaN) =
            (width (rectangle_of_points a b) = PosInf \<and> height (rectangle_of_points a b) = Fin 0
             \<or> width (rectangle_of_points a b) = Fin 0
               \<and> height (rectangle_of_points a b) = PosInf))
   \<and> left (rectangle_of_points b a) = left (rectangle_of_points a b)
   \<and> right (rectangle_of_points b a) = right (rectangle_of_points a b)
   \<and> bottom (rectangle_of_points b a) = bottom (rectangle_of_points a b)
   \<and> top_rect (rectangle_of_points b a) = top_rect (rectangle_of_points a b)
   \<and> width (rectangle_of_points b a) = width (rectangle_of_points a b)
   \<and> height (rectangle_of_points b a) = height (rectangle_of_points a b)
   \<and> area (rectangle_of_points b a) = area (rectangle_of_points a b)
   \<and> centre (rectangle_of_points b a) = centre (rectangle_of_points a b)
   \<and> contains (rectangle_of_points b a) x y = contains (rectangle_of_points a b) x y
   \<and> contains_point (rectangle_of_points b a) p = contains_point (rectangle_of_points a b) p
   \<and> rectangle_eq (rectangle_of_points a b) (rectangle_of_points b a) = point_eq a b
   \<and> rectangle_neq (rectangle_of_points a b) (rectangle_of_points b a) = (\<not> point_eq a b)
   \<and> left (rectangle_of_size origin w h) \<le> right (rectangle_of_size origin w h)
   \<and> bottom (rectangle_of_size origin w h) \<le> top_rect (rectangle_of_size origin w h)
   \<and> (finite_point origin \<and> finite_double w \<and> finite_double h \<longrightarrow>
        dle (Fin 0) (width (rectangle_of_size origin w h))
        \<and> dle (Fin 0) (height (rectangle_of_size origin w h))
        \<and> (area (rectangle_of_size origin w h) = NaN
           \<or> dle (Fin 0) (area (rectangle_of_size origin w h)))
        \<and> (area (rectangle_of_size origin w h) = NaN) =
            (width (rectangle_of_size origin w h) = PosInf
               \<and> height (rectangle_of_size origin w h) = Fin 0
             \<or> width (rectangle_of_size origin w h) = Fin 0
               \<and> height (rectangle_of_size origin w h) = PosInf))"
proof -
  have points: "finite_point (m_first (rectangle_of_points a b))" if "finite_point a"
    using that by (simp add: rectangle_of_points_def)
  have size: "finite_point (m_first (rectangle_of_size origin w h))" if "finite_point origin"
    using that by (simp add: rectangle_of_size_def)
  have eq: "rectangle_eq (rectangle_of_points a' b') (rectangle_of_points b' a') = point_eq a b"
    if "a' = a \<and> b' = b \<or> a' = b \<and> b' = a" for a' b'
    using that by (auto simp: rectangle_eq_def rectangle_of_points_def point_eq_def)
  have swap: "width (rectangle_of_points b a) = width (rectangle_of_points a b)"
    "height (rectangle_of_points b a) = height (rectangle_of_points a b)"
    "area (rectangle_of_points b a) = area (rectangle_of_points a b)"
    "centre (rectangle_of_points b a) = centre (rectangle_of_points a b)"
    "contains (rectangle_of_points b a) x y = contains (rectangle_of_points a b) x y"
    "contains_point (rectangle_of_points b a) p = contains_point (rectangle_of_points a b) p"
    by (simp_all add: swap_edges width_def height_def area_def centre_def centre_x_def
        centre_y_def contains_def contains_point_def)
  have points_sizes: "finite_point a \<and> finite_point b \<longrightarrow>
        dle (Fin 0) (width (rectangle_of_points a b))
        \<and> dle (Fin 0) (height (rectangle_of_points a b))
        \<and> (area (rectangle_of_points a b) = NaN \<or> dle (Fin 0) (area (rectangle_of_points a b)))
        \<and> (area (rectangle_of_points a b) = NaN) =
            (width (rectangle_of_points a b) = PosInf \<and> height (rectangle_of_points a b) = Fin 0
             \<or> width (rectangle_of_points a b) = Fin 0
               \<and> height (rectangle_of_points a b) = PosInf)"
    using rectangle_sizes [OF points] by blast
  have size_sizes: "finite_point origin \<and> finite_double w \<and> finite_double h \<longrightarrow>
        dle (Fin 0) (width (rectangle_of_size origin w h))
        \<and> dle (Fin 0) (height (rectangle_of_size origin w h))
        \<and> (area (rectangle_of_size origin w h) = NaN
           \<or> dle (Fin 0) (area (rectangle_of_size origin w h)))
        \<and> (area (rectangle_of_size origin w h) = NaN) =
            (width (rectangle_of_size origin w h) = PosInf
               \<and> height (rectangle_of_size origin w h) = Fin 0
             \<or> width (rectangle_of_size origin w h) = Fin 0
               \<and> height (rectangle_of_size origin w h) = PosInf)"
    using rectangle_sizes [OF size] by blast
  show ?thesis
    by (intro conjI points_sizes size_sizes)
       (simp_all add: left_le_right bottom_le_top swap_edges swap eq rectangle_neq_def)
qed

theorem rectangle_normalised_witness:
  "left (rectangle_of_size \<lparr>px = 1, py = 1\<rparr> (- 3) (- 2)) \<le> right (rectangle_of_size \<lparr>px = 1, py = 1\<rparr> (- 3) (- 2))
   \<and> width (rectangle_of_size \<lparr>px = 1, py = 1\<rparr> (- 3) (- 2)) = Fin 3
   \<and> dle (Fin 0) (area (rectangle_of_size \<lparr>px = 1, py = 1\<rparr> (- 3) (- 2)))
   \<and> dle (Fin 0) (width (rectangle_of_points \<lparr>px = 4, py = 3\<rparr> \<lparr>px = 0, py = 1\<rparr>))
   \<and> width (rectangle_of_points \<lparr>px = 0, py = 1\<rparr> \<lparr>px = 4, py = 3\<rparr>)
       = width (rectangle_of_points \<lparr>px = 4, py = 3\<rparr> \<lparr>px = 0, py = 1\<rparr>)
   \<and> area (rectangle_of_points \<lparr>px = 4, py = 3\<rparr> \<lparr>px = 0, py = 1\<rparr>) = Fin 8
   \<and> \<not> rectangle_eq (rectangle_of_points \<lparr>px = 4, py = 3\<rparr> \<lparr>px = 0, py = 1\<rparr>)
          (rectangle_of_points \<lparr>px = 0, py = 1\<rparr> \<lparr>px = 4, py = 3\<rparr>)"
  using rectangle_normalised [where a = "\<lparr>px = 4, py = 3\<rparr>" and b = "\<lparr>px = 0, py = 1\<rparr>"
      and x = 0 and y = 0 and p = "\<lparr>px = 0, py = 0\<rparr>"
      and origin = "\<lparr>px = 1, py = 1\<rparr>" and w = "- 3" and h = "- 2"]
  by (simp add: finite_point_def finite_double_small point_eq_def)
     (simp add: rectangle_of_size_def rectangle_of_points_def point_offset_def edge_defs
      width_def height_def area_def dsub_def dadd_def dmul_def double_of_real_small)

section \<open>Properties of the renderer\<close>

lemma example_visible_world:
  "get_visible_world example_renderer =
     rectangle_of_points \<lparr>px = - 5, py = - 5\<rparr> \<lparr>px = 105, py = 105\<rparr>"
  by (simp add: get_visible_world_def example_renderer_def example_camera_def Let_def
      rectangle_of_points_def bottom_left_def top_right_def edge_defs point_mul_def point_sub_def
      point_add_def)

text \<open>
  Claim C1. In the coordinate system \<open>SCREEN\<close>, \<open>rectangle_off_screen\<close> is false for every
  rectangle. In \<open>WORLD\<close> it is true exactly when the rectangle lies wholly to the left of,
  to the right of, below or above the rectangle of \<open>get_visible_world\<close>, which is exactly
  when the two rectangles have no point in common.
\<close>

theorem rectangle_off_screen_iff:
  "(current_coordinate_system r = SCREEN \<longrightarrow> \<not> rectangle_off_screen r rect)
   \<and> (current_coordinate_system r = WORLD \<longrightarrow>
        (rectangle_off_screen r rect \<longleftrightarrow>
           right rect < left (get_visible_world r) \<or> left rect > right (get_visible_world r)
           \<or> top_rect rect < bottom (get_visible_world r)
           \<or> bottom rect > top_rect (get_visible_world r)))
   \<and> (current_coordinate_system r = WORLD \<longrightarrow>
        (rectangle_off_screen r rect \<longleftrightarrow>
           (\<nexists>x y. contains rect x y \<and> contains (get_visible_world r) x y)))"
proof -
  have world: "rectangle_off_screen r rect \<longleftrightarrow>
           right rect < left (get_visible_world r) \<or> left rect > right (get_visible_world r)
           \<or> top_rect rect < bottom (get_visible_world r)
           \<or> bottom rect > top_rect (get_visible_world r)"
    if "current_coordinate_system r = WORLD"
    using that by (simp add: rectangle_off_screen_def Let_def)
  have screen: "\<not> rectangle_off_screen r rect" if "current_coordinate_system r = SCREEN"
    using that by (simp add: rectangle_off_screen_def)
  show ?thesis
    using world screen rectangles_disjoint_iff [of rect "get_visible_world r"] by blast
qed

theorem rectangle_off_screen_iff_witness:
  "\<not> rectangle_off_screen (set_coordinate_system example_renderer SCREEN)
        (rectangle_of_points \<lparr>px = 200, py = 200\<rparr> \<lparr>px = 300, py = 300\<rparr>)
   \<and> rectangle_off_screen example_renderer
        (rectangle_of_points \<lparr>px = 200, py = 200\<rparr> \<lparr>px = 300, py = 300\<rparr>)
   \<and> \<not> rectangle_off_screen example_renderer
        (rectangle_of_points \<lparr>px = 105, py = 50\<rparr> \<lparr>px = 300, py = 300\<rparr>)"
  using rectangle_off_screen_iff [where r = "set_coordinate_system example_renderer SCREEN"
      and rect = "rectangle_of_points \<lparr>px = 200, py = 200\<rparr> \<lparr>px = 300, py = 300\<rparr>"]
    rectangle_off_screen_iff [where r = example_renderer
      and rect = "rectangle_of_points \<lparr>px = 200, py = 200\<rparr> \<lparr>px = 300, py = 300\<rparr>"]
    rectangle_off_screen_iff [where r = example_renderer
      and rect = "rectangle_of_points \<lparr>px = 105, py = 50\<rparr> \<lparr>px = 300, py = 300\<rparr>"]
  by (simp add: example_visible_world set_coordinate_system_def)
     (simp add: example_renderer_def rectangle_of_points_def edge_defs)


subsection \<open>Facts about the concrete renderer\<close>

lemma example_fields:
  "m_cairo example_renderer = []"
  "m_transform example_renderer = example_transform"
  "m_camera example_renderer = example_camera"
  "rotation_angle example_renderer = 0"
  "current_coordinate_system example_renderer = WORLD"
  "transparency_flag example_renderer = False"
  "EZGL_USE_X11 example_renderer = False"
  "cairo_text_extents example_renderer calls text =
     \<lparr>te_x_bearing = 1, te_y_bearing = - 8, te_width = 20, te_height = 8,
      te_x_advance = 22, te_y_advance = 0\<rparr>"
  "cairo_font_extents example_renderer calls =
     \<lparr>fe_ascent = 9, fe_descent = 2, fe_height = 12,
      fe_max_x_advance = 25, fe_max_y_advance = 0\<rparr>"
  "cairo_image_surface_create_from_png example_renderer = example_png"
  by (simp_all add: example_renderer_def)

lemma example_off_screen:
  "rectangle_off_screen example_renderer a \<longleftrightarrow>
     right a < - 5 \<or> left a > 105 \<or> top_rect a < - 5 \<or> bottom a > 105"
  by (simp add: rectangle_off_screen_def example_visible_world Let_def)
     (simp add: example_renderer_def rectangle_of_points_def edge_defs)

subsection \<open>Culling\<close>

text \<open>\<open>rectangle_off_screen\<close> looks at the four edges of its argument only.\<close>

lemma off_screen_edges:
  "left a = left b \<Longrightarrow> right a = right b \<Longrightarrow> bottom a = bottom b \<Longrightarrow> top_rect a = top_rect b
   \<Longrightarrow> rectangle_off_screen r a = rectangle_off_screen r b"
  by (simp add: rectangle_off_screen_def Let_def)

text \<open>
  The loop of \<open>fill_poly\<close> over the points from the second on leaves the least and the
  greatest coordinate of all the points in \<open>x_min\<close>, \<open>x_max\<close>, \<open>y_min\<close> and \<open>y_max\<close>.
\<close>

lemma fold_min_Min:
  fixes f :: "'a \<Rightarrow> real"
  shows "fold (\<lambda>p m. min m (f p)) xs a = Min (insert a (f ` set xs))"
proof (induction xs arbitrary: a)
  case Nil
  then show ?case by simp
next
  case (Cons x xs)
  have "Min (insert (min a (f x)) (f ` set xs)) = Min (insert a (insert (f x) (f ` set xs)))"
    by (cases "set xs = {}") (simp_all add: min.assoc)
  with Cons show ?case by simp
qed

lemma fold_max_Max:
  fixes f :: "'a \<Rightarrow> real"
  shows "fold (\<lambda>p m. max m (f p)) xs a = Max (insert a (f ` set xs))"
proof (induction xs arbitrary: a)
  case Nil
  then show ?case by simp
next
  case (Cons x xs)
  have "Max (insert (max a (f x)) (f ` set xs)) = Max (insert a (insert (f x) (f ` set xs)))"
    by (cases "set xs = {}") (simp_all add: max.assoc)
  with Cons show ?case by simp
qed

lemma image_hd_tl:
  "1 < length points \<Longrightarrow> insert (f (hd points)) (f ` set (tl points)) = f ` set points"
  by (cases points) auto

lemma fill_poly_culled:
  assumes "length points > 1"
    and "rectangle_off_screen r
          (rectangle_of_points \<lparr>px = Min (px ` set points), py = Min (py ` set points)\<rparr>
             \<lparr>px = Max (px ` set points), py = Max (py ` set points)\<rparr>)"
  shows "fill_poly r points = Inr r"
  using assms by (simp add: fill_poly_def fold_min_Min fold_max_Max image_hd_tl)

lemma rect_overload_box:
  "rectangle_off_screen r
     (rectangle_of_points \<lparr>px = left rc, py = bottom rc\<rparr> \<lparr>px = right rc, py = top_rect rc\<rparr>)
   = rectangle_off_screen r rc"
  using left_le_right [of rc] bottom_le_top [of rc]
  by (intro off_screen_edges) (simp_all add: rectangle_of_points_def edge_defs)

lemma size_overload_box:
  "rectangle_of_points start \<lparr>px = px start + w, py = py start + h\<rparr> = rectangle_of_size start w h"
  by (simp add: rectangle_of_points_def rectangle_of_size_def point_offset_def)

text \<open>
  Claim C2. When \<open>rectangle_off_screen\<close> rejects the bounding rectangle of its geometry, a
  drawing primitive returns the renderer it was given: no call has been added to those
  issued on the drawing interface, and no member has changed. The bounding rectangle is the
  rectangle of the two end points for a line and for a rectangle, the rectangle of the
  least and the greatest coordinates for a polygon of more than one point, the square or
  rectangle around the centre for an arc, and the rectangle of the image's width and
  height below its top-left corner for a surface.
\<close>

theorem culled_primitive_draws_nothing:
  "(rectangle_off_screen r (rectangle_of_points start end_pt) \<longrightarrow>
      draw_line r start end_pt = r \<and> draw_rectangle r start end_pt = r
      \<and> fill_rectangle r start end_pt = r)
   \<and> (rectangle_off_screen r (rectangle_of_size start w h) \<longrightarrow>
      draw_rectangle_size r start w h = r \<and> fill_rectangle_size r start w h = r)
   \<and> (rectangle_off_screen r rc \<longrightarrow> draw_rectangle_rect r rc = r \<and> fill_rectangle_rect r rc = r)
   \<and> (length points > 1
       \<and> rectangle_off_screen r
          (rectangle_of_points \<lparr>px = Min (px ` set points), py = Min (py ` set points)\<rparr>
             \<lparr>px = Max (px ` set points), py = Max (py ` set points)\<rparr>) \<longrightarrow>
      fill_poly r points = Inr r)
   \<and> (rectangle_off_screen r
        (rectangle_of_points \<lparr>px = px center - radius, py = py center - radius\<rparr>
           \<lparr>px = px center + radius, py = py center + radius\<rparr>) \<longrightarrow>
      draw_arc r center radius start_angle extent_angle = r
      \<and> fill_arc r center radius start_angle extent_angle = r)
   \<and> (rectangle_off_screen r
        (rectangle_of_points \<lparr>px = px center - radius_x, py = py center - radius_y\<rparr>
           \<lparr>px = px center + radius_x, py = py center + radius_y\<rparr>) \<longrightarrow>
      draw_elliptic_arc r center radius_x radius_y start_angle extent_angle = r
      \<and> fill_elliptic_arc r center radius_x radius_y start_angle extent_angle = r)
   \<and> (rectangle_off_screen r
        (rectangle_of_size
           \<lparr>px = px top_left,
            py = py top_left - real_of_int (cairo_image_surface_get_height surface)\<rparr>
           (real_of_int (cairo_image_surface_get_width surface))
           (real_of_int (cairo_image_surface_get_height surface))) \<longrightarrow>
      draw_surface r surface top_left = r)"
proof -
  have lines: "draw_line r start end_pt = r \<and> draw_rectangle r start end_pt = r
      \<and> fill_rectangle r start end_pt = r"
    if "rectangle_off_screen r (rectangle_of_points start end_pt)"
    using that by (simp add: draw_line_def draw_rectangle_def fill_rectangle_def)
  have sizes: "draw_rectangle_size r start w h = r \<and> fill_rectangle_size r start w h = r"
    if "rectangle_off_screen r (rectangle_of_size start w h)"
    using that by (simp add: draw_rectangle_size_def fill_rectangle_size_def size_overload_box)
  have rects: "draw_rectangle_rect r rc = r \<and> fill_rectangle_rect r rc = r"
    if "rectangle_off_screen r rc"
    using that by (simp add: draw_rectangle_rect_def fill_rectangle_rect_def rect_overload_box)
  have arcs: "draw_arc r center radius start_angle extent_angle = r
      \<and> fill_arc r center radius start_angle extent_angle = r"
    if "rectangle_off_screen r
        (rectangle_of_points \<lparr>px = px center - radius, py = py center - radius\<rparr>
           \<lparr>px = px center + radius, py = py center + radius\<rparr>)"
    using that by (simp add: draw_arc_def fill_arc_def)
  have ellipses: "draw_elliptic_arc r center radius_x radius_y start_angle extent_angle = r
      \<and> fill_elliptic_arc r center radius_x radius_y start_angle extent_angle = r"
    if "rectangle_off_screen r
        (rectangle_of_points \<lparr>px = px center - radius_x, py = py center - radius_y\<rparr>
           \<lparr>px = px center + radius_x, py = py center + radius_y\<rparr>)"
    using that by (simp add: draw_elliptic_arc_def fill_elliptic_arc_def)
  have surfaces: "draw_surface r surface top_left = r"
    if "rectangle_off_screen r
        (rectangle_of_size
           \<lparr>px = px top_left,
            py = py top_left - real_of_int (cairo_image_surface_get_height surface)\<rparr>
           (real_of_int (cairo_image_surface_get_width surface))
           (real_of_int (cairo_image_surface_get_height surface)))"
    using that by (simp add: draw_surface_def)
  show ?thesis
    using lines sizes rects arcs ellipses surfaces fill_poly_culled [of points r] by blast
qed

theorem culled_primitive_draws_nothing_witness:
  "draw_line example_renderer \<lparr>px = 200, py = 200\<rparr> \<lparr>px = 300, py = 250\<rparr> = example_renderer
   \<and> fill_rectangle_size example_renderer \<lparr>px = 200, py = 200\<rparr> 100 50 = example_renderer
   \<and> draw_rectangle_rect example_renderer
        (rectangle_of_points \<lparr>px = 200, py = 200\<rparr> \<lparr>px = 300, py = 250\<rparr>) = example_renderer
   \<and> fill_poly example_renderer [\<lparr>px = 200, py = 200\<rparr>, \<lparr>px = 300, py = 250\<rparr>, \<lparr>px = 250, py = 0\<rparr>]
       = Inr example_renderer
   \<and> fill_arc example_renderer \<lparr>px = 200, py = 50\<rparr> 10 0 90 = example_renderer
   \<and> draw_elliptic_arc example_renderer \<lparr>px = 200, py = 50\<rparr> 10 40 0 90 = example_renderer
   \<and> draw_surface example_renderer (example_png ''icon.png'') \<lparr>px = 50, py = - 10\<rparr>
       = example_renderer"
  using culled_primitive_draws_nothing [where r = example_renderer
      and start = "\<lparr>px = 200, py = 200\<rparr>" and end_pt = "\<lparr>px = 300, py = 250\<rparr>"
      and w = 100 and h = 50
      and rc = "rectangle_of_points \<lparr>px = 200, py = 200\<rparr> \<lparr>px = 300, py = 250\<rparr>"
      and points = "[\<lparr>px = 200, py = 200\<rparr>, \<lparr>px = 300, py = 250\<rparr>, \<lparr>px = 250, py = 0\<rparr>]"
      and center = "\<lparr>px = 200, py = 50\<rparr>" and radius = 10
      and start_angle = 0 and extent_angle = 90 and radius_x = 10 and radius_y = 40
      and top_left = "\<lparr>px = 50, py = - 10\<rparr>" and surface = "example_png ''icon.png''"]
  by (simp add: example_off_screen rectangle_of_points_def rectangle_of_size_def point_offset_def
      edge_defs example_png_def)

subsection \<open>Text\<close>












subsection \<open>Images\<close>

text \<open>
  Claim C6, as the specification states it: an error of the PNG load or a bad surface
  status is surfaced to the caller. It fails: \<open>icon.png\<close> is the only file, loading
  \<open>missing.png\<close> gives the status \<open>CAIRO_STATUS_FILE_NOT_FOUND\<close>, and \<open>draw_png\<close> hands
  back the renderer it was given, which is all its caller gets; the same happens for a
  surface whose status is \<open>CAIRO_STATUS_READ_ERROR\<close>. The outcome is that of drawing an
  image that exists and lies outside the visible world.
\<close>

theorem draw_png_error_not_surfaced:
  "cairo_surface_status (cairo_image_surface_create_from_png example_renderer ''missing.png'')
     = CAIRO_STATUS_FILE_NOT_FOUND
   \<and> draw_png example_renderer ''missing.png'' \<lparr>px = 50, py = 50\<rparr> = example_renderer
   \<and> draw_surface example_renderer
        \<lparr>cairo_surface_status = CAIRO_STATUS_READ_ERROR,
         cairo_image_surface_get_width = 0, cairo_image_surface_get_height = 0\<rparr>
        \<lparr>px = 50, py = 50\<rparr> = example_renderer
   \<and> draw_png example_renderer ''missing.png'' \<lparr>px = 50, py = 50\<rparr>
       = draw_png example_renderer ''icon.png'' \<lparr>px = 50, py = - 10\<rparr>"
  by (simp add: draw_png_def draw_surface_def example_off_screen rectangle_of_size_def
      point_offset_def edge_defs example_fields example_png_def)

text \<open>
  Claim C6, amended. When the surface made of the file has a status other than
  \<open>CAIRO_STATUS_SUCCESS\<close>, \<open>draw_png\<close> returns without drawing and without reporting
  anything: the renderer is as it was. \<open>draw_surface\<close> does the same for a surface whose
  status is not \<open>CAIRO_STATUS_SUCCESS\<close>.
\<close>

theorem draw_png_absorbs_error:
  "(cairo_surface_status (cairo_image_surface_create_from_png r file_path) \<noteq> CAIRO_STATUS_SUCCESS
      \<longrightarrow> draw_png r file_path top_left = r)
   \<and> (cairo_surface_status surface \<noteq> CAIRO_STATUS_SUCCESS
      \<longrightarrow> draw_surface r surface top_left = r)"
  by (simp add: draw_png_def draw_surface_def)

theorem draw_png_absorbs_error_witness:
  "draw_png example_renderer ''missing.png'' \<lparr>px = 50, py = 50\<rparr> = example_renderer
   \<and> draw_surface example_renderer (example_png ''missing.png'') \<lparr>px = 50, py = 50\<rparr>
       = example_renderer"
  using draw_png_absorbs_error [where r = example_renderer and file_path = "''missing.png''"
      and top_left = "\<lparr>px = 50, py = 50\<rparr>" and surface = "example_png ''missing.png''"]
  by (simp add: example_fields example_png_def)

subsection \<open>World and screen coordinates\<close>































end
